theory Spec2Isabelle
  imports Main
begin

section \<open>HeaderTooltips plugin: data model\<close>

text \<open>
  The embedding follows \<^verbatim>\<open>src/plugins/headerTooltips/headerTooltips.js\<close>.
  Every JavaScript operation that can throw (a property read on \<^verbatim>\<open>null\<close> or
  \<^verbatim>\<open>undefined\<close>) is a branch returning \<open>Inl TypeError\<close>.
\<close>

datatype error = TypeError

text \<open>
  The JavaScript values a settings field can hold. Only their truthiness is ever
  inspected by the plugin. \<open>JUndefined\<close> is also what reading an absent key yields.
\<close>

datatype jsval = JUndefined | JNull | JBool bool | JNum int | JStr string

fun truthy :: "jsval \<Rightarrow> bool" where
  "truthy JUndefined = False"
| "truthy JNull = False"
| "truthy (JBool b) = b"
| "truthy (JNum n) = (n \<noteq> 0)"
| "truthy (JStr s) = (s \<noteq> [])"

text \<open>The structured settings object \<^verbatim>\<open>{rows, columns, onlyTrimmed}\<close>.\<close>

record settings_obj =
  rows :: jsval
  columns :: jsval
  onlyTrimmed :: jsval

text \<open>
  The value of \<^verbatim>\<open>this.settings\<close> (and of the \<^verbatim>\<open>headerTooltips\<close> configuration
  entry): a primitive (\<^verbatim>\<open>null\<close>, a boolean, ...) or a structured object.
\<close>

datatype settings_val = Prim jsval | Obj settings_obj

text \<open>\<^verbatim>\<open>typeof v === 'boolean'\<close>\<close>

fun is_boolean :: "settings_val \<Rightarrow> bool" where
  "is_boolean (Prim (JBool b)) = True"
| "is_boolean v = False"

text \<open>\<^verbatim>\<open>!!v\<close>: every object is truthy.\<close>

fun truthy_settings :: "settings_val \<Rightarrow> bool" where
  "truthy_settings (Prim v) = truthy v"
| "truthy_settings (Obj s) = True"

text \<open>
  The property read \<^verbatim>\<open>this.settings.key\<close> for one of the three keys: it throws on
  \<^verbatim>\<open>null\<close> and \<^verbatim>\<open>undefined\<close>, yields \<^verbatim>\<open>undefined\<close> on any other primitive, and the
  field on an object.
\<close>

fun get_prop :: "settings_val \<Rightarrow> (settings_obj \<Rightarrow> jsval) \<Rightarrow> error + jsval" where
  "get_prop (Prim JNull) key = Inl TypeError"
| "get_prop (Prim JUndefined) key = Inl TypeError"
| "get_prop (Prim v) key = Inr JUndefined"
| "get_prop (Obj s) key = Inr (key s)"

subsection \<open>Header elements\<close>

text \<open>
  The inner label node found by \<^verbatim>\<open>TH.querySelector('span')\<close>: its text content and
  its rendered width (\<^verbatim>\<open>offsetWidth\<close>, an integer number of pixels).
\<close>

record span_el =
  textContent :: string
  span_offsetWidth :: int

text \<open>
  A header cell (\<^verbatim>\<open>TH\<close>): its attributes, the result of \<^verbatim>\<open>querySelector('span')\<close>
  (\<open>None\<close> for \<^verbatim>\<open>null\<close>), the node names of its ancestors from the parent upwards
  (the chain ends where \<^verbatim>\<open>parentNode\<close> is \<^verbatim>\<open>null\<close>), and its own rendered width.
\<close>

record th_el =
  attrs :: "string \<rightharpoonup> string"
  innerSpan :: "span_el option"
  ancestors :: "string list"
  th_offsetWidth :: int

definition setAttribute :: "th_el \<Rightarrow> string \<Rightarrow> string \<Rightarrow> th_el" where
  "setAttribute el name v = el\<lparr>attrs := (attrs el)(name \<mapsto> v)\<rparr>"

definition removeAttribute :: "th_el \<Rightarrow> string \<Rightarrow> th_el" where
  "removeAttribute el name = el\<lparr>attrs := (attrs el)(name := None)\<rparr>"

text \<open>
  Modelled from the spec: \<^verbatim>\<open>outerWidth\<close> of \<^verbatim>\<open>helpers/dom/element\<close> is imported but
  absent from the sources; section 6 describes it as "measure an element's rendered
  outer width". Applied to \<^verbatim>\<open>null\<close> it reads a property of \<^verbatim>\<open>null\<close> and throws.
\<close>

definition outerWidth :: "span_el option \<Rightarrow> error + int" where
  "outerWidth el = (case el of None \<Rightarrow> Inl TypeError | Some sp \<Rightarrow> Inr (span_offsetWidth sp))"

text \<open>\<^verbatim>\<open>TH.parentNode.parentNode.nodeName === 'THEAD'\<close>\<close>

fun isColHeader :: "th_el \<Rightarrow> error + bool" where
  "isColHeader TH =
     (case ancestors TH of
        [] \<Rightarrow> Inl TypeError
      | [parent] \<Rightarrow> Inl TypeError
      | parent # grandparent # up \<Rightarrow> Inr (grandparent = ''THEAD''))"

section \<open>The plugin\<close>

text \<open>The three header surfaces read by the cleanup traversal.\<close>

type_synonym tr = "th_el list"
type_synonym thead = "tr list"

text \<open>
  The host instance \<^verbatim>\<open>this.hot\<close>, as far as the plugin reads it:
  \<^item> \<open>headerTooltips\<close>: \<^verbatim>\<open>getSettings().headerTooltips\<close>;
  \<^item> \<open>columnHeaders\<close>: the length of \<^verbatim>\<open>view.wt.getSetting('columnHeaders')\<close>;
  \<^item> \<open>mainTHEAD\<close>: \<^verbatim>\<open>view.wt.wtTable.THEAD\<close>, the rows with their cells;
  \<^item> \<open>topOverlay\<close>: \<^verbatim>\<open>view.wt.wtOverlays.topOverlay\<close>, \<open>None\<close> when it is missing,
    otherwise its \<^verbatim>\<open>clone.wtTable.THEAD\<close>;
  \<^item> \<open>topLeftCornerOverlay\<close>: \<^verbatim>\<open>view.wt.wtOverlays.topLeftCornerOverlay\<close>, \<open>None\<close>
    when it is falsy, otherwise its \<^verbatim>\<open>clone.wtTable.THEAD\<close>.
  The child nodes of a header row are header cells.
\<close>

record host =
  headerTooltips :: settings_val
  columnHeaders :: nat
  mainTHEAD :: thead
  topOverlay :: "thead option"
  topLeftCornerOverlay :: "thead option"

text \<open>
  The plugin instance \<^verbatim>\<open>this\<close>: the cached settings, the \<^verbatim>\<open>enabled\<close> flag and the
  registered hooks kept by the base class, and the host.
\<close>

record plugin =
  settings :: settings_val
  enabled :: bool
  hooks :: "string list"
  hot :: host

definition isEnabled :: "plugin \<Rightarrow> bool" where
  "isEnabled p = truthy_settings (headerTooltips (hot p))"

definition parseSettings :: "plugin \<Rightarrow> plugin" where
  "parseSettings p =
     (if is_boolean (settings p)
      then p\<lparr>settings := Obj \<lparr>rows = JBool True, columns = JBool True, onlyTrimmed = JBool False\<rparr>\<rparr>
      else p)"

subsection \<open>onAfterGetHeader\<close>

definition columnWidth :: int where
  "columnWidth = 50"

text \<open>
  \<^verbatim>\<open>isColHeader && this.settings.columns || !isColHeader && this.settings.rows\<close>,
  with the short-circuit evaluation written out: only one of the two fields is read.
\<close>

definition applicable :: "settings_val \<Rightarrow> bool \<Rightarrow> error + bool" where
  "applicable st isCol =
     (case (if isCol then get_prop st columns else Inr (JBool False)) of
        Inl e \<Rightarrow> Inl e
      | Inr l \<Rightarrow>
          if truthy l then Inr True
          else if \<not> isCol
            then (case get_prop st rows of Inl e \<Rightarrow> Inl e | Inr r \<Rightarrow> Inr (truthy r))
            else Inr False)"

text \<open>
  The hook handler. It returns the header cell as the call leaves it, or the error
  thrown; every throw happens before the cell is written.
\<close>

definition onAfterGetHeader :: "plugin \<Rightarrow> int \<Rightarrow> th_el \<Rightarrow> error + th_el" where
  "onAfterGetHeader p index TH =
     (let innerSpan = innerSpan TH in
      case isColHeader TH of
        Inl e \<Rightarrow> Inl e
      | Inr isCol \<Rightarrow>
         (case applicable (settings p) isCol of
            Inl e \<Rightarrow> Inl e
          | Inr False \<Rightarrow> Inr TH
          | Inr True \<Rightarrow>
             (case get_prop (settings p) onlyTrimmed of
                Inl e \<Rightarrow> Inl e
              | Inr ot \<Rightarrow>
                  if truthy ot then
                    (case outerWidth innerSpan of
                       Inl e \<Rightarrow> Inl e
                     | Inr textWidth \<Rightarrow>
                         if textWidth \<ge> columnWidth \<and> textWidth \<noteq> 0
                         then (case innerSpan of
                                 None \<Rightarrow> Inl TypeError
                               | Some sp \<Rightarrow> Inr (setAttribute TH ''title'' (textContent sp)))
                         else Inr TH)
                  else
                    (case innerSpan of
                       None \<Rightarrow> Inl TypeError
                     | Some sp \<Rightarrow> Inr (setAttribute TH ''title'' (textContent sp))))))"

text \<open>
  The same handler with the guard of the \<^verbatim>\<open>onlyTrimmed\<close> branch reduced to the
  comparison \<^verbatim>\<open>textWidth >= 50\<close> alone, without the zero check; it is compared with
  the handler of the source below.
\<close>

definition onAfterGetHeader_ge50 :: "plugin \<Rightarrow> int \<Rightarrow> th_el \<Rightarrow> error + th_el" where
  "onAfterGetHeader_ge50 p index TH =
     (let innerSpan = innerSpan TH in
      case isColHeader TH of
        Inl e \<Rightarrow> Inl e
      | Inr isCol \<Rightarrow>
         (case applicable (settings p) isCol of
            Inl e \<Rightarrow> Inl e
          | Inr False \<Rightarrow> Inr TH
          | Inr True \<Rightarrow>
             (case get_prop (settings p) onlyTrimmed of
                Inl e \<Rightarrow> Inl e
              | Inr ot \<Rightarrow>
                  if truthy ot then
                    (case outerWidth innerSpan of
                       Inl e \<Rightarrow> Inl e
                     | Inr textWidth \<Rightarrow>
                         if textWidth \<ge> 50
                         then (case innerSpan of
                                 None \<Rightarrow> Inl TypeError
                               | Some sp \<Rightarrow> Inr (setAttribute TH ''title'' (textContent sp)))
                         else Inr TH)
                  else
                    (case innerSpan of
                       None \<Rightarrow> Inl TypeError
                     | Some sp \<Rightarrow> Inr (setAttribute TH ''title'' (textContent sp))))))"

subsection \<open>Cleanup traversal\<close>

text \<open>\<^verbatim>\<open>childNodes[i]\<close>: \<^verbatim>\<open>undefined\<close> (\<open>None\<close>) outside the list.\<close>

definition childNode :: "'a list \<Rightarrow> int \<Rightarrow> 'a option" where
  "childNode xs i = (if 0 \<le> i \<and> i < int (length xs) then Some (xs ! nat i) else None)"

text \<open>
  A loop over a list of indices, threading the state through the calls of the
  iteratee; a throw of the iteratee ends the loop.
\<close>

fun forEach :: "(int \<Rightarrow> 's \<Rightarrow> error + 's) \<Rightarrow> int list \<Rightarrow> 's \<Rightarrow> error + 's" where
  "forEach iteratee [] s = Inr s"
| "forEach iteratee (index # rest) s =
     (case iteratee index s of Inl e \<Rightarrow> Inl e | Inr s' \<Rightarrow> forEach iteratee rest s')"

text \<open>
  Modelled from the spec: \<^verbatim>\<open>rangeEach\<close> of \<^verbatim>\<open>helpers/number\<close> is imported but absent
  from the sources; section 4.4 has the traversal "enumerate all header row levels",
  "outer level first, then inner index". \<open>rangeEach rangeFrom rangeTo iteratee\<close>
  calls the iteratee on \<open>rangeFrom, rangeFrom + 1, ..., rangeTo\<close> in this order, and
  on nothing when \<open>rangeTo < rangeFrom\<close>. The two callbacks of the traversal return
  nothing, so no call ends the loop early by returning \<^verbatim>\<open>false\<close>.
\<close>

definition rangeEach :: "int \<Rightarrow> int \<Rightarrow> (int \<Rightarrow> 's \<Rightarrow> error + 's) \<Rightarrow> 's \<Rightarrow> error + 's" where
  "rangeEach rangeFrom rangeTo iteratee s = forEach iteratee [rangeFrom..rangeTo] s"

text \<open>The local variables of \<open>clearTitleAttributes\<close> that hold the header surfaces.\<close>

record surfaces =
  mainHeaders :: thead
  topHeaders :: thead
  topLeftCornerHeaders :: "thead option"

text \<open>\<^verbatim>\<open>level.childNodes[j].removeAttribute('title')\<close> on the row \<open>i\<close> of a surface.\<close>

definition removeTitle_at :: "thead \<Rightarrow> int \<Rightarrow> int \<Rightarrow> thead" where
  "removeTitle_at t i j =
     t[nat i := (t ! nat i)[nat j := removeAttribute (t ! nat i ! nat j) ''title'']]"

text \<open>
  \<^verbatim>\<open>if (level && level.childNodes[j]) level.childNodes[j].removeAttribute('title')\<close>
  for the row \<open>i\<close> of an overlay surface: nothing happens when the row or the cell
  is missing.
\<close>

definition removeTitle_if_present :: "thead \<Rightarrow> int \<Rightarrow> int \<Rightarrow> thead" where
  "removeTitle_if_present t i j =
     (case childNode t i of
        None \<Rightarrow> t
      | Some level \<Rightarrow>
         (case childNode level j of
            None \<Rightarrow> t
          | Some c \<Rightarrow> removeTitle_at t i j))"

text \<open>
  The body of the inner loop, for the level \<open>i\<close> and the index \<open>j\<close>: the main cell
  is written without a check, the top overlay's and the corner overlay's cells under
  their guards, the corner's only when that surface exists.
\<close>

definition clearTitle_cell :: "int \<Rightarrow> int \<Rightarrow> surfaces \<Rightarrow> error + surfaces" where
  "clearTitle_cell i j s =
     (case childNode (mainHeaders s) i of
        None \<Rightarrow> Inl TypeError
      | Some masterLevel \<Rightarrow>
         (case childNode masterLevel j of
            None \<Rightarrow> Inl TypeError
          | Some cell \<Rightarrow>
              Inr (s\<lparr>mainHeaders := removeTitle_at (mainHeaders s) i j,
                     topHeaders := removeTitle_if_present (topHeaders s) i j,
                     topLeftCornerHeaders :=
                       (case topLeftCornerHeaders s of
                          None \<Rightarrow> None
                        | Some cornerHeaders \<Rightarrow>
                            Some (removeTitle_if_present cornerHeaders i j))\<rparr>)))"

text \<open>
  The body of the outer loop: \<^verbatim>\<open>masterLevel.childNodes.length\<close> throws when the main
  surface has no row at the level \<open>i\<close>.
\<close>

definition clearTitle_level :: "int \<Rightarrow> surfaces \<Rightarrow> error + surfaces" where
  "clearTitle_level i s =
     (case childNode (mainHeaders s) i of
        None \<Rightarrow> Inl TypeError
      | Some masterLevel \<Rightarrow>
          rangeEach 0 (int (length masterLevel) - 1) (clearTitle_cell i) s)"

text \<open>
  The traversal returns the host with the three surfaces as the loops leave them, or
  the error thrown. The top overlay is dereferenced before the loops start. When a
  loop throws, the cells visited before it keep their change in the source; the model
  keeps only the error.
\<close>

definition clearTitleAttributes :: "host \<Rightarrow> error + host" where
  "clearTitleAttributes h =
     (let headerLevels = int (columnHeaders h) in
      case topOverlay h of
        None \<Rightarrow> Inl TypeError
      | Some topTHEAD \<Rightarrow>
         (case rangeEach 0 (headerLevels - 1) clearTitle_level
                 \<lparr>mainHeaders = mainTHEAD h, topHeaders = topTHEAD,
                  topLeftCornerHeaders = topLeftCornerOverlay h\<rparr> of
            Inl e \<Rightarrow> Inl e
          | Inr s \<Rightarrow>
              Inr (h\<lparr>mainTHEAD := mainHeaders s, topOverlay := Some (topHeaders s),
                     topLeftCornerOverlay := topLeftCornerHeaders s\<rparr>)))"

subsection \<open>Lifecycle\<close>

text \<open>
  The base class \<^verbatim>\<open>BasePlugin\<close> (\<^verbatim>\<open>plugins/_base\<close>) is absent from the sources. Its
  operations that \<open>enablePlugin\<close> and \<open>disablePlugin\<close> call are modelled by what
  section 4.2 of the spec says of them. None of them reads or writes a header cell.
\<close>

text \<open>
  Modelled from the spec: \<^verbatim>\<open>addHook\<close> of the absent base class; "register two
  render-hook subscriptions": the hook name joins the registered hooks.
\<close>

definition addHook :: "plugin \<Rightarrow> string \<Rightarrow> plugin" where
  "addHook p name = p\<lparr>hooks := hooks p @ [name]\<rparr>"

text \<open>
  Modelled from the spec: \<^verbatim>\<open>enablePlugin\<close> of the absent base class; "then mark state
  enabled".
\<close>

definition base_enablePlugin :: "plugin \<Rightarrow> plugin" where
  "base_enablePlugin p = p\<lparr>enabled := True\<rparr>"

text \<open>
  Modelled from the spec: \<^verbatim>\<open>disablePlugin\<close> of the absent base class; "unregister the
  hook subscriptions, mark state disabled".
\<close>

definition base_disablePlugin :: "plugin \<Rightarrow> plugin" where
  "base_disablePlugin p = p\<lparr>enabled := False, hooks := []\<rparr>"

definition enablePlugin :: "plugin \<Rightarrow> plugin" where
  "enablePlugin p =
     (if enabled p then p
      else base_enablePlugin
             (addHook (addHook (parseSettings (p\<lparr>settings := headerTooltips (hot p)\<rparr>))
                ''afterGetColHeader'') ''afterGetRowHeader''))"

definition disablePlugin :: "plugin \<Rightarrow> error + plugin" where
  "disablePlugin p =
     (let p1 = p\<lparr>settings := Prim JNull\<rparr> in
      case clearTitleAttributes (hot p1) of
        Inl e \<Rightarrow> Inl e
      | Inr h \<Rightarrow> Inr (base_disablePlugin (p1\<lparr>hot := h\<rparr>)))"

subsection \<open>Reading a surface by position\<close>

text \<open>The cell of a surface at a level and an index, \<open>None\<close> when the row or the cell is missing.\<close>

definition cell_at :: "thead \<Rightarrow> nat \<Rightarrow> nat \<Rightarrow> th_el option" where
  "cell_at t i j =
     (case childNode t (int i) of None \<Rightarrow> None | Some level \<Rightarrow> childNode level (int j))"

text \<open>The same for a surface that may be absent as a whole.\<close>

definition cell_at_opt :: "thead option \<Rightarrow> nat \<Rightarrow> nat \<Rightarrow> th_el option" where
  "cell_at_opt s i j = (case s of None \<Rightarrow> None | Some t \<Rightarrow> cell_at t i j)"

text \<open>
  The closed form of the traversal used in the proofs: a row with the title removed
  from its first \<open>m\<close> cells, and a surface so treated on its first \<open>k\<close> levels, each up
  to the length of the main surface's row at that level.
\<close>

definition strip_upto :: "nat \<Rightarrow> tr \<Rightarrow> tr" where
  "strip_upto m row = map (\<lambda>c. removeAttribute c ''title'') (take m row) @ drop m row"

primrec strip_levels :: "nat \<Rightarrow> thead \<Rightarrow> thead \<Rightarrow> thead" where
  "strip_levels 0 main t = t"
| "strip_levels (Suc k) main t =
     (strip_levels k main t)[k := strip_upto (length (main ! k)) (t ! k)]"

text \<open>
  The state of the inner loop at the level \<open>i\<close> after the indices below \<open>m\<close>, and of
  the outer loop after the levels below \<open>k\<close>.
\<close>

definition strip_row_in :: "thead \<Rightarrow> nat \<Rightarrow> nat \<Rightarrow> thead" where
  "strip_row_in t i m = t[i := strip_upto m (t ! i)]"

definition inner_state :: "surfaces \<Rightarrow> nat \<Rightarrow> nat \<Rightarrow> surfaces" where
  "inner_state s i m =
     s\<lparr>mainHeaders := strip_row_in (mainHeaders s) i m,
       topHeaders := strip_row_in (topHeaders s) i m,
       topLeftCornerHeaders := map_option (\<lambda>t. strip_row_in t i m) (topLeftCornerHeaders s)\<rparr>"

definition outer_state :: "surfaces \<Rightarrow> nat \<Rightarrow> surfaces" where
  "outer_state s k =
     s\<lparr>mainHeaders := strip_levels k (mainHeaders s) (mainHeaders s),
       topHeaders := strip_levels k (mainHeaders s) (topHeaders s),
       topLeftCornerHeaders := map_option (strip_levels k (mainHeaders s)) (topLeftCornerHeaders s)\<rparr>"

subsection \<open>Well-formed header surfaces\<close>

text \<open>
  What the traversal relies on without checking it: the top overlay exists, and the
  main surface has a row for every configured header level.
\<close>

definition surfaces_present :: "host \<Rightarrow> bool" where
  "surfaces_present h = (topOverlay h \<noteq> None \<and> columnHeaders h \<le> length (mainTHEAD h))"

subsection \<open>Example configurations\<close>

text \<open>
  A header cell without attributes, inside the section \<open>section_name\<close> (\<^verbatim>\<open>THEAD\<close> for
  a column header, \<^verbatim>\<open>TBODY\<close> for a row header), with a label of the given width; a
  column header that carries a title; a host with one header level, two main header
  cells, a top overlay with one cell and no corner overlay; a plugin on that host.
\<close>

definition example_TH :: "string \<Rightarrow> string \<Rightarrow> int \<Rightarrow> th_el" where
  "example_TH section_name label width =
     \<lparr>attrs = Map.empty,
      innerSpan = Some \<lparr>textContent = label, span_offsetWidth = width\<rparr>,
      ancestors = [''TR'', section_name, ''TABLE''],
      th_offsetWidth = 0\<rparr>"

definition example_titled :: "string \<Rightarrow> th_el" where
  "example_titled label = setAttribute (example_TH ''THEAD'' label 80) ''title'' label"

definition example_host :: host where
  "example_host =
     \<lparr>headerTooltips = Prim (JBool True), columnHeaders = 1,
      mainTHEAD = [[example_titled ''Qty'', example_titled ''Revenue'']],
      topOverlay = Some [[example_titled ''Qty'']],
      topLeftCornerOverlay = None\<rparr>"

definition example_plugin :: "settings_val \<Rightarrow> plugin" where
  "example_plugin st = \<lparr>settings = st, enabled = True, hooks = [], hot = example_host\<rparr>"

definition example_settings :: "bool \<Rightarrow> bool \<Rightarrow> bool \<Rightarrow> settings_val" where
  "example_settings r c t = Obj \<lparr>rows = JBool r, columns = JBool c, onlyTrimmed = JBool t\<rparr>"

section \<open>Auxiliary facts\<close>

lemma error_is_TypeError: "(e :: error) = TypeError"
  by (cases e) simp

subsection \<open>Loops\<close>

lemma upto_map_int: "[0..int n - 1] = map int [0..<n]"
proof (induction n)
  case 0
  show ?case by simp
next
  case (Suc n)
  have "[0..int (Suc n) - 1] = [0..int n - 1] @ [int n]"
    using upto_rec2 [of 0 "int n"] by simp
  with Suc show ?case by simp
qed

lemma forEach_append:
  "forEach f (xs @ ys) s = (case forEach f xs s of Inl e \<Rightarrow> Inl e | Inr s' \<Rightarrow> forEach f ys s')"
  by (induction xs arbitrary: s) (auto split: sum.splits)

lemma childNode_nat:
  "childNode xs (int i) = (if i < length xs then Some (xs ! i) else None)"
  by (simp add: childNode_def)

subsection \<open>Rows and surfaces with titles removed\<close>

lemma length_strip_upto: "length (strip_upto m row) = length row"
  by (simp add: strip_upto_def)

lemma nth_strip_upto:
  "j < length row \<Longrightarrow>
   strip_upto m row ! j = (if j < m then removeAttribute (row ! j) ''title'' else row ! j)"
  by (simp add: strip_upto_def nth_append min_def)

lemma strip_upto_0: "strip_upto 0 row = row"
  by (simp add: strip_upto_def)

lemma strip_upto_step:
  "(strip_upto m row)[m := removeAttribute (strip_upto m row ! m) ''title''] = strip_upto (Suc m) row"
proof (rule nth_equalityI)
  show "length ((strip_upto m row)[m := removeAttribute (strip_upto m row ! m) ''title'']) =
        length (strip_upto (Suc m) row)"
    by (simp add: length_strip_upto)
next
  fix j
  assume "j < length ((strip_upto m row)[m := removeAttribute (strip_upto m row ! m) ''title''])"
  then have j: "j < length row"
    by (simp add: length_strip_upto)
  show "(strip_upto m row)[m := removeAttribute (strip_upto m row ! m) ''title''] ! j =
        strip_upto (Suc m) row ! j"
  proof (cases "j = m")
    case True
    with j show ?thesis
      by (simp add: length_strip_upto nth_strip_upto)
  next
    case False
    with j show ?thesis
      by (simp add: nth_strip_upto)
  qed
qed

lemma removeTitle_at_strip:
  "removeTitle_at (strip_row_in t i m) (int i) (int m) = strip_row_in t i (Suc m)"
proof (cases "i < length t")
  case True
  then show ?thesis
    by (simp add: removeTitle_at_def strip_row_in_def strip_upto_step)
next
  case False
  then show ?thesis
    by (simp add: removeTitle_at_def strip_row_in_def list_update_beyond)
qed

subsection \<open>The traversal in closed form\<close>

lemma removeTitle_if_present_eq:
  "removeTitle_if_present t (int i) (int j) = removeTitle_at t (int i) (int j)"
  by (simp add: removeTitle_if_present_def childNode_nat removeTitle_at_def list_update_beyond)

lemma inner_state_0: "inner_state s i 0 = s"
  by (cases "topLeftCornerHeaders s")
     (simp_all add: inner_state_def strip_row_in_def strip_upto_0)

lemma cell_step:
  assumes "i < length (mainHeaders s)" and "m < length (mainHeaders s ! i)"
  shows "clearTitle_cell (int i) (int m) (inner_state s i m) = Inr (inner_state s i (Suc m))"
proof -
  let ?s = "inner_state s i m"
  have main: "childNode (mainHeaders ?s) (int i) = Some (strip_upto m (mainHeaders s ! i))"
    using assms by (simp add: childNode_nat inner_state_def strip_row_in_def)
  have cell: "childNode (strip_upto m (mainHeaders s ! i)) (int m)
                = Some (strip_upto m (mainHeaders s ! i) ! m)"
    using assms by (simp add: childNode_nat length_strip_upto)
  have "clearTitle_cell (int i) (int m) ?s =
          Inr (?s\<lparr>mainHeaders := removeTitle_at (mainHeaders ?s) (int i) (int m),
                  topHeaders := removeTitle_at (topHeaders ?s) (int i) (int m),
                  topLeftCornerHeaders :=
                    map_option (\<lambda>c. removeTitle_at c (int i) (int m)) (topLeftCornerHeaders ?s)\<rparr>)"
    by (cases "topLeftCornerHeaders ?s")
       (simp_all add: clearTitle_cell_def main cell removeTitle_if_present_eq)
  also have "\<dots> = Inr (inner_state s i (Suc m))"
    by (cases "topLeftCornerHeaders s")
       (simp_all add: inner_state_def removeTitle_at_strip)
  finally show ?thesis .
qed

lemma inner_loop:
  assumes "i < length (mainHeaders s)"
  shows "m \<le> length (mainHeaders s ! i) \<Longrightarrow>
         forEach (clearTitle_cell (int i)) (map int [0..<m]) s = Inr (inner_state s i m)"
proof (induction m)
  case 0
  show ?case by (simp add: inner_state_0)
next
  case (Suc m)
  then have "forEach (clearTitle_cell (int i)) (map int [0..<m]) s = Inr (inner_state s i m)"
    and "m < length (mainHeaders s ! i)"
    by simp_all
  then show ?case
    using cell_step [OF assms, of m] by (simp add: forEach_append)
qed

lemma clearTitle_level_closed:
  assumes "i < length (mainHeaders s)"
  shows "clearTitle_level (int i) s = Inr (inner_state s i (length (mainHeaders s ! i)))"
  using assms inner_loop [OF assms, of "length (mainHeaders s ! i)"]
  by (simp add: clearTitle_level_def childNode_nat rangeEach_def upto_map_int)

lemma length_strip_levels: "length (strip_levels k main t) = length t"
  by (induction k) simp_all

lemma nth_strip_levels:
  "i < length t \<Longrightarrow>
   strip_levels k main t ! i = (if i < k then strip_upto (length (main ! i)) (t ! i) else t ! i)"
  by (induction k) (auto simp add: nth_list_update length_strip_levels less_Suc_eq)

lemma strip_row_in_levels:
  "strip_row_in (strip_levels k main t) k n = (strip_levels k main t)[k := strip_upto n (t ! k)]"
proof (cases "k < length t")
  case True
  then show ?thesis by (simp add: strip_row_in_def nth_strip_levels)
next
  case False
  then show ?thesis by (simp add: strip_row_in_def list_update_beyond length_strip_levels)
qed

lemma level_step:
  assumes "k < length (mainHeaders s)"
  shows "clearTitle_level (int k) (outer_state s k) = Inr (outer_state s (Suc k))"
proof -
  have len: "k < length (mainHeaders (outer_state s k))"
    using assms by (simp add: outer_state_def length_strip_levels)
  have row: "mainHeaders (outer_state s k) ! k = mainHeaders s ! k"
    using assms by (simp add: outer_state_def nth_strip_levels)
  show ?thesis
    unfolding clearTitle_level_closed [OF len] row
    by (cases "topLeftCornerHeaders s")
       (simp_all add: inner_state_def outer_state_def strip_row_in_levels)
qed

lemma outer_state_0: "outer_state s 0 = s"
  by (cases "topLeftCornerHeaders s") (simp_all add: outer_state_def)

lemma outer_loop:
  "k \<le> length (mainHeaders s) \<Longrightarrow>
   forEach clearTitle_level (map int [0..<k]) s = Inr (outer_state s k)"
proof (induction k)
  case 0
  show ?case by (simp add: outer_state_0)
next
  case (Suc k)
  then have "forEach clearTitle_level (map int [0..<k]) s = Inr (outer_state s k)"
    and "k < length (mainHeaders s)"
    by simp_all
  then show ?case
    using level_step [of k s] by (simp add: forEach_append)
qed

lemma clearTitleAttributes_closed:
  assumes "topOverlay h = Some t" and "columnHeaders h \<le> length (mainTHEAD h)"
  shows "clearTitleAttributes h =
           Inr (h\<lparr>mainTHEAD := strip_levels (columnHeaders h) (mainTHEAD h) (mainTHEAD h),
                  topOverlay := Some (strip_levels (columnHeaders h) (mainTHEAD h) t),
                  topLeftCornerOverlay :=
                    map_option (strip_levels (columnHeaders h) (mainTHEAD h)) (topLeftCornerOverlay h)\<rparr>)"
  using assms
    outer_loop [of "columnHeaders h"
      "\<lparr>mainHeaders = mainTHEAD h, topHeaders = t, topLeftCornerHeaders = topLeftCornerOverlay h\<rparr>"]
  by (simp add: clearTitleAttributes_def rangeEach_def upto_map_int outer_state_def)

lemma cell_at_strip_levels:
  assumes "i < k" and "j < length (main ! i)"
  shows "cell_at (strip_levels k main t) i j =
           map_option (\<lambda>c. removeAttribute c ''title'') (cell_at t i j)"
  using assms
  by (simp add: cell_at_def childNode_nat length_strip_levels nth_strip_levels
        length_strip_upto nth_strip_upto)

lemma cell_at_main:
  "i < length t \<Longrightarrow> j < length (t ! i) \<Longrightarrow> cell_at t i j = Some (t ! i ! j)"
  by (simp add: cell_at_def childNode_nat)

lemma removeAttribute_twice:
  "removeAttribute (removeAttribute c n) n = removeAttribute c n"
  by (simp add: removeAttribute_def)

lemma strip_upto_idem: "strip_upto m (strip_upto m row) = strip_upto m row"
  by (rule nth_equalityI)
     (simp_all add: length_strip_upto nth_strip_upto removeAttribute_twice)

lemma strip_levels_idem:
  assumes "k \<le> length main"
  shows "strip_levels k (strip_levels k main main) (strip_levels k main t) = strip_levels k main t"
proof (rule nth_equalityI)
  show "length (strip_levels k (strip_levels k main main) (strip_levels k main t)) =
        length (strip_levels k main t)"
    by (simp add: length_strip_levels)
next
  fix i
  assume "i < length (strip_levels k (strip_levels k main main) (strip_levels k main t))"
  then have i: "i < length t"
    by (simp add: length_strip_levels)
  show "strip_levels k (strip_levels k main main) (strip_levels k main t) ! i =
        strip_levels k main t ! i"
  proof (cases "i < k")
    case True
    with assms have "i < length main" by simp
    with True i show ?thesis
      by (simp add: nth_strip_levels length_strip_levels length_strip_upto strip_upto_idem)
  next
    case False
    with i show ?thesis
      by (simp add: nth_strip_levels length_strip_levels)
  qed
qed

lemma clearTitleAttributes_idem:
  assumes "topOverlay h = Some t" and "columnHeaders h \<le> length (mainTHEAD h)"
    and "clearTitleAttributes h = Inr h'"
  shows "clearTitleAttributes h' = Inr h'"
proof -
  let ?k = "columnHeaders h" and ?main = "mainTHEAD h"
  have h': "h' = h\<lparr>mainTHEAD := strip_levels ?k ?main ?main,
                topOverlay := Some (strip_levels ?k ?main t),
                topLeftCornerOverlay := map_option (strip_levels ?k ?main) (topLeftCornerOverlay h)\<rparr>"
    using clearTitleAttributes_closed [OF assms(1,2)] assms(3) by simp
  have top: "topOverlay h' = Some (strip_levels ?k ?main t)"
    and len: "columnHeaders h' \<le> length (mainTHEAD h')"
    using assms(2) by (simp_all add: h' length_strip_levels)
  show ?thesis
    unfolding clearTitleAttributes_closed [OF top len]
    using assms(2)
    by (cases "topLeftCornerOverlay h")
       (simp_all add: h' strip_levels_idem)
qed

lemma disablePlugin_run:
  assumes "clearTitleAttributes h = Inr h'"
  shows "disablePlugin \<lparr>settings = st, enabled = en, hooks = hs, hot = h\<rparr> =
           Inr \<lparr>settings = Prim JNull, enabled = False, hooks = [], hot = h'\<rparr>"
  using assms by (simp add: disablePlugin_def base_disablePlugin_def)

section \<open>Settings normalisation\<close>

text \<open>
  C4. \<open>parseSettings\<close> replaces a boolean \<^verbatim>\<open>this.settings\<close>, whichever boolean it is,
  by \<^verbatim>\<open>{rows: true, columns: true, onlyTrimmed: false}\<close>, and leaves the plugin
  completely unchanged when the cached settings are not a boolean: an object keeps
  its fields as they are, absent (\<^verbatim>\<open>undefined\<close>) ones included.
\<close>

theorem parseSettings_normalises:
  "parseSettings (p\<lparr>settings := Prim (JBool b)\<rparr>) =
     p\<lparr>settings := Obj \<lparr>rows = JBool True, columns = JBool True, onlyTrimmed = JBool False\<rparr>\<rparr>
   \<and> (\<not> is_boolean (settings p) \<longrightarrow> parseSettings p = p)
   \<and> parseSettings (p\<lparr>settings := Obj s\<rparr>) = p\<lparr>settings := Obj s\<rparr>"
  by (simp add: parseSettings_def)

text \<open>
  At a settings object that has only the key \<^verbatim>\<open>rows\<close>, nothing is filled in; at the
  boolean \<^verbatim>\<open>false\<close> the defaults appear.
\<close>

theorem parseSettings_normalises_witness:
  "\<not> is_boolean (Obj \<lparr>rows = JBool True, columns = JUndefined, onlyTrimmed = JUndefined\<rparr>)
   \<and> parseSettings
         (example_plugin (Obj \<lparr>rows = JBool True, columns = JUndefined, onlyTrimmed = JUndefined\<rparr>))
       = example_plugin (Obj \<lparr>rows = JBool True, columns = JUndefined, onlyTrimmed = JUndefined\<rparr>)
   \<and> settings (parseSettings (example_plugin (Prim (JBool False))))
       = Obj \<lparr>rows = JBool True, columns = JBool True, onlyTrimmed = JBool False\<rparr>"
  using parseSettings_normalises
    [where p = "example_plugin (Obj \<lparr>rows = JBool True, columns = JUndefined, onlyTrimmed = JUndefined\<rparr>)"
       and b = False]
    parseSettings_normalises [where p = "example_plugin (Prim JNull)" and b = False]
  by (simp add: example_plugin_def)

section \<open>The header hook\<close>

text \<open>
  C1. With a truthy \<^verbatim>\<open>onlyTrimmed\<close> and the header's dimension enabled, the handler
  returns the header cell with \<^verbatim>\<open>title\<close> set to the label text when the measured
  width of the inner label node is at least 50 and not 0, and the cell as it was
  otherwise. The header cell's own width has no influence on the outcome. On a cell
  that had no title, the title is present afterwards if and only if the label width
  passes the test.
\<close>

theorem onlyTrimmed_title_iff_label_width:
  assumes "settings p = Obj s" and "truthy (onlyTrimmed s)"
    and "ancestors TH = parent # grandparent # up"
    and "truthy (if grandparent = ''THEAD'' then columns s else rows s)"
    and "innerSpan TH = Some sp"
  shows "onAfterGetHeader p index TH =
           Inr (if span_offsetWidth sp \<ge> 50 \<and> span_offsetWidth sp \<noteq> 0
                then setAttribute TH ''title'' (textContent sp) else TH)
         \<and> onAfterGetHeader p index (TH\<lparr>th_offsetWidth := w\<rparr>) =
           Inr ((if span_offsetWidth sp \<ge> 50 \<and> span_offsetWidth sp \<noteq> 0
                 then setAttribute TH ''title'' (textContent sp) else TH)\<lparr>th_offsetWidth := w\<rparr>)
         \<and> (attrs TH ''title'' = None \<longrightarrow>
              (\<exists>TH'. onAfterGetHeader p index TH = Inr TH' \<and>
                 (attrs TH' ''title'' \<noteq> None) =
                   (span_offsetWidth sp \<ge> 50 \<and> span_offsetWidth sp \<noteq> 0)))"
  using assms
  by (auto simp add: onAfterGetHeader_def applicable_def outerWidth_def columnWidth_def
        setAttribute_def split: if_splits)

text \<open>Label widths 0 and 49 leave the column header without a title, 50 and 120 set it.\<close>

theorem onlyTrimmed_title_iff_label_width_witness:
  "onAfterGetHeader (example_plugin (example_settings True True True)) 0
       (example_TH ''THEAD'' ''Revenue'' 0) = Inr (example_TH ''THEAD'' ''Revenue'' 0)
   \<and> onAfterGetHeader (example_plugin (example_settings True True True)) 0
       (example_TH ''THEAD'' ''Revenue'' 49) = Inr (example_TH ''THEAD'' ''Revenue'' 49)
   \<and> onAfterGetHeader (example_plugin (example_settings True True True)) 0
       (example_TH ''THEAD'' ''Revenue'' 50)
       = Inr (setAttribute (example_TH ''THEAD'' ''Revenue'' 50) ''title'' ''Revenue'')
   \<and> onAfterGetHeader (example_plugin (example_settings True True True)) 0
       (example_TH ''THEAD'' ''Revenue'' 120)
       = Inr (setAttribute (example_TH ''THEAD'' ''Revenue'' 120) ''title'' ''Revenue'')"
proof -
  have run: "onAfterGetHeader (example_plugin (example_settings True True True)) 0
               (example_TH ''THEAD'' ''Revenue'' x) =
             Inr (if x \<ge> 50 \<and> x \<noteq> 0
                  then setAttribute (example_TH ''THEAD'' ''Revenue'' x) ''title'' ''Revenue''
                  else example_TH ''THEAD'' ''Revenue'' x)" for x
    using onlyTrimmed_title_iff_label_width
      [where p = "example_plugin (example_settings True True True)"
         and s = "\<lparr>rows = JBool True, columns = JBool True, onlyTrimmed = JBool True\<rparr>"
         and TH = "example_TH ''THEAD'' ''Revenue'' x"
         and parent = "''TR''" and grandparent = "''THEAD''" and up = "[''TABLE'']"
         and sp = "\<lparr>textContent = ''Revenue'', span_offsetWidth = x\<rparr>"
         and index = 0 and w = 0]
    by (simp add: example_plugin_def example_settings_def example_TH_def)
  show ?thesis
    by (simp add: run)
qed

text \<open>
  C5. With a falsy \<^verbatim>\<open>onlyTrimmed\<close> and the header's dimension enabled, the handler sets
  \<^verbatim>\<open>title\<close> to exactly the text content of the inner label node: reading the
  attribute back gives the label text.
\<close>

theorem plain_title_is_label_text:
  assumes "settings p = Obj s" and "\<not> truthy (onlyTrimmed s)"
    and "ancestors TH = parent # grandparent # up"
    and "truthy (if grandparent = ''THEAD'' then columns s else rows s)"
    and "innerSpan TH = Some sp"
  shows "onAfterGetHeader p index TH = Inr (setAttribute TH ''title'' (textContent sp))
         \<and> attrs (setAttribute TH ''title'' (textContent sp)) ''title'' = Some (textContent sp)"
  using assms
  by (auto simp add: onAfterGetHeader_def applicable_def setAttribute_def split: if_splits)

text \<open>A row header labelled "Qty" under \<^verbatim>\<open>{rows: true, columns: false, onlyTrimmed: false}\<close>.\<close>

theorem plain_title_is_label_text_witness:
  "\<not> truthy (JBool False)
   \<and> (case onAfterGetHeader (example_plugin (example_settings True False False)) 3
              (example_TH ''TBODY'' ''Qty'' 30) of
         Inl e \<Rightarrow> False
       | Inr TH' \<Rightarrow> attrs TH' ''title'' = Some ''Qty'')"
  using plain_title_is_label_text
    [where p = "example_plugin (example_settings True False False)"
       and s = "\<lparr>rows = JBool True, columns = JBool False, onlyTrimmed = JBool False\<rparr>"
       and TH = "example_TH ''TBODY'' ''Qty'' 30"
       and parent = "''TR''" and grandparent = "''TBODY''" and up = "[''TABLE'']"
       and sp = "\<lparr>textContent = ''Qty'', span_offsetWidth = 30\<rparr>"
       and index = 3]
  by (simp add: example_plugin_def example_settings_def example_TH_def setAttribute_def)

text \<open>
  C6. When the field for the header's dimension (\<^verbatim>\<open>columns\<close> for a column header,
  \<^verbatim>\<open>rows\<close> for a row header) is falsy, the handler returns the header cell exactly
  as it received it: no attribute is set and none is removed.
\<close>

theorem disabled_dimension_untouched:
  assumes "ancestors TH = parent # grandparent # up"
    and "get_prop (settings p) (if grandparent = ''THEAD'' then columns else rows) = Inr v"
    and "\<not> truthy v"
  shows "onAfterGetHeader p index TH = Inr TH"
  using assms
  by (auto simp add: onAfterGetHeader_def applicable_def split: if_splits)

text \<open>A titled column header under \<^verbatim>\<open>{rows: true, columns: false, onlyTrimmed: false}\<close>.\<close>

theorem disabled_dimension_untouched_witness:
  "get_prop (settings (example_plugin (example_settings True False False))) columns
     = Inr (JBool False)
   \<and> \<not> truthy (JBool False)
   \<and> onAfterGetHeader (example_plugin (example_settings True False False)) 0
        (example_titled ''2024'') = Inr (example_titled ''2024'')"
  using disabled_dimension_untouched
    [where p = "example_plugin (example_settings True False False)"
       and TH = "example_titled ''2024''"
       and parent = "''TR''" and grandparent = "''THEAD''" and up = "[''TABLE'']"
       and v = "JBool False" and index = 0]
  by (simp add: example_plugin_def example_settings_def example_titled_def example_TH_def
        setAttribute_def)

text \<open>
  C8. The handler never removes the \<^verbatim>\<open>title\<close> attribute: a call throws before writing
  anything, or returns the header cell unchanged, or returns it with \<^verbatim>\<open>title\<close>
  overwritten by the label text. So a cell that carried a title before the call
  carries one after it.
\<close>

theorem onAfterGetHeader_never_removes:
  "(onAfterGetHeader p index TH = Inl TypeError
    \<or> onAfterGetHeader p index TH = Inr TH
    \<or> (\<exists>sp. innerSpan TH = Some sp \<and>
          onAfterGetHeader p index TH = Inr (setAttribute TH ''title'' (textContent sp))))
   \<and> (\<forall>TH' v. onAfterGetHeader p index TH = Inr TH' \<longrightarrow> attrs TH ''title'' = Some v \<longrightarrow>
         attrs TH' ''title'' \<noteq> None)"
  by (cases "onAfterGetHeader p index TH")
     (auto simp add: onAfterGetHeader_def setAttribute_def Let_def error_is_TypeError
      split: sum.splits bool.splits option.splits if_splits error.splits)

text \<open>
  A header whose label has become narrow keeps the title of an earlier pass under
  \<^verbatim>\<open>onlyTrimmed\<close>.
\<close>

theorem onAfterGetHeader_never_removes_witness:
  "onAfterGetHeader (example_plugin (example_settings True True True)) 0
       (setAttribute (example_TH ''THEAD'' ''Qty'' 30) ''title'' ''Quantity'')
     = Inr (setAttribute (example_TH ''THEAD'' ''Qty'' 30) ''title'' ''Quantity'')
   \<and> attrs (setAttribute (example_TH ''THEAD'' ''Qty'' 30) ''title'' ''Quantity'') ''title''
       = Some ''Quantity''"
  using onAfterGetHeader_never_removes
    [where p = "example_plugin (example_settings True True True)" and index = 0
       and TH = "setAttribute (example_TH ''THEAD'' ''Qty'' 30) ''title'' ''Quantity''"]
  by (simp add: onAfterGetHeader_def applicable_def outerWidth_def columnWidth_def
        example_plugin_def example_settings_def example_TH_def setAttribute_def)

text \<open>
  C9. In the \<^verbatim>\<open>onlyTrimmed\<close> branch the guard
  \<^verbatim>\<open>textWidth >= columnWidth && textWidth !== 0\<close> is equivalent to \<^verbatim>\<open>textWidth >= 50\<close>
  for every integer width, and the handler with the comparison alone returns the same
  result as the handler of the source on every input.
\<close>

theorem trimmed_guard_zero_check_redundant:
  "((w \<ge> columnWidth \<and> w \<noteq> 0) = (w \<ge> 50))
   \<and> onAfterGetHeader p index TH = onAfterGetHeader_ge50 p index TH"
proof -
  have guard: "\<And>x. (x \<ge> columnWidth \<and> x \<noteq> 0) = (x \<ge> 50)"
    by (auto simp add: columnWidth_def)
  show ?thesis
    by (simp add: guard onAfterGetHeader_def onAfterGetHeader_ge50_def
          cong: sum.case_cong bool.case_cong option.case_cong if_cong)
qed

section \<open>The cleanup traversal\<close>

text \<open>
  C2. When the top overlay exists and the main surface has a row for every header
  level, \<open>clearTitleAttributes\<close> returns without an error, and at every level below the
  number of header levels and every index of the main surface's row at that level the
  \<^verbatim>\<open>title\<close> attribute is removed from the main cell, from the top overlay's cell and
  from the corner overlay's cell where these exist; a missing corner surface, a
  missing overlay row and a missing overlay cell stay missing and raise nothing.
\<close>

theorem clearTitleAttributes_strips_matching_cells:
  assumes "topOverlay h = Some t" and "columnHeaders h \<le> length (mainTHEAD h)"
  shows "\<exists>h'. clearTitleAttributes h = Inr h' \<and>
           (\<forall>i j. i < columnHeaders h \<longrightarrow> j < length (mainTHEAD h ! i) \<longrightarrow>
              cell_at (mainTHEAD h') i j = Some (removeAttribute (mainTHEAD h ! i ! j) ''title'')
              \<and> cell_at_opt (topOverlay h') i j =
                  map_option (\<lambda>c. removeAttribute c ''title'') (cell_at_opt (topOverlay h) i j)
              \<and> cell_at_opt (topLeftCornerOverlay h') i j =
                  map_option (\<lambda>c. removeAttribute c ''title'')
                    (cell_at_opt (topLeftCornerOverlay h) i j))"
proof -
  let ?k = "columnHeaders h" and ?main = "mainTHEAD h"
  let ?h' = "h\<lparr>mainTHEAD := strip_levels ?k ?main ?main,
                topOverlay := Some (strip_levels ?k ?main t),
                topLeftCornerOverlay := map_option (strip_levels ?k ?main) (topLeftCornerOverlay h)\<rparr>"
  have run: "clearTitleAttributes h = Inr ?h'"
    by (rule clearTitleAttributes_closed [OF assms])
  have cells: "cell_at (mainTHEAD ?h') i j = Some (removeAttribute (?main ! i ! j) ''title'')
        \<and> cell_at_opt (topOverlay ?h') i j =
            map_option (\<lambda>c. removeAttribute c ''title'') (cell_at_opt (topOverlay h) i j)
        \<and> cell_at_opt (topLeftCornerOverlay ?h') i j =
            map_option (\<lambda>c. removeAttribute c ''title'') (cell_at_opt (topLeftCornerOverlay h) i j)"
    if "i < ?k" and "j < length (?main ! i)" for i j
  proof -
    from that assms(2) have "i < length ?main" by simp
    with that show ?thesis
      by (cases "topLeftCornerOverlay h")
         (simp_all add: assms(1) cell_at_opt_def cell_at_strip_levels cell_at_main)
  qed
  from run cells show ?thesis by blast
qed

text \<open>
  On the example host the second main cell loses its title, the top overlay's only
  cell loses its title, and the positions without a cell (the overlay's second cell,
  the whole corner surface) stay empty.
\<close>

theorem clearTitleAttributes_strips_matching_cells_witness:
  "topOverlay example_host = Some [[example_titled ''Qty'']]
   \<and> columnHeaders example_host \<le> length (mainTHEAD example_host)
   \<and> (case clearTitleAttributes example_host of
         Inl e \<Rightarrow> False
       | Inr h' \<Rightarrow>
           cell_at (mainTHEAD h') 0 1 = Some (example_TH ''THEAD'' ''Revenue'' 80)
           \<and> cell_at_opt (topOverlay h') 0 0 = Some (example_TH ''THEAD'' ''Qty'' 80)
           \<and> cell_at_opt (topOverlay h') 0 1 = None
           \<and> cell_at_opt (topLeftCornerOverlay h') 0 1 = None)"
proof -
  have t: "topOverlay example_host = Some [[example_titled ''Qty'']]"
    by (simp add: example_host_def)
  have l: "columnHeaders example_host \<le> length (mainTHEAD example_host)"
    by (simp add: example_host_def)
  from clearTitleAttributes_strips_matching_cells [OF t l]
  obtain h' where run: "clearTitleAttributes example_host = Inr h'"
    and cells: "\<And>i j. i < columnHeaders example_host \<Longrightarrow> j < length (mainTHEAD example_host ! i) \<Longrightarrow>
        cell_at (mainTHEAD h') i j = Some (removeAttribute (mainTHEAD example_host ! i ! j) ''title'')
        \<and> cell_at_opt (topOverlay h') i j =
            map_option (\<lambda>c. removeAttribute c ''title'') (cell_at_opt (topOverlay example_host) i j)
        \<and> cell_at_opt (topLeftCornerOverlay h') i j =
            map_option (\<lambda>c. removeAttribute c ''title'')
              (cell_at_opt (topLeftCornerOverlay example_host) i j)"
    by blast
  have "cell_at (mainTHEAD h') 0 1 = Some (example_TH ''THEAD'' ''Revenue'' 80)
        \<and> cell_at_opt (topOverlay h') 0 1 = None
        \<and> cell_at_opt (topLeftCornerOverlay h') 0 1 = None"
    using cells [of 0 1]
    by (simp add: example_host_def example_titled_def example_TH_def setAttribute_def
          removeAttribute_def cell_at_opt_def cell_at_def childNode_def)
  moreover have "cell_at_opt (topOverlay h') 0 0 = Some (example_TH ''THEAD'' ''Qty'' 80)"
    using cells [of 0 0]
    by (simp add: example_host_def example_titled_def example_TH_def setAttribute_def
          removeAttribute_def cell_at_opt_def cell_at_def childNode_def)
  ultimately show ?thesis
    using t l run by simp
qed

text \<open>
  The traversal throws a \<^verbatim>\<open>TypeError\<close> with one header level and a main surface
  without rows, and also when the top overlay is missing: neither is skipped.
\<close>

theorem clearTitleAttributes_missing_main_row_raises:
  "clearTitleAttributes
     \<lparr>headerTooltips = Prim (JBool True), columnHeaders = 1, mainTHEAD = [],
      topOverlay = Some [], topLeftCornerOverlay = None\<rparr> = Inl TypeError
   \<and> clearTitleAttributes (example_host\<lparr>topOverlay := None\<rparr>) = Inl TypeError"
  by (simp add: clearTitleAttributes_def rangeEach_def clearTitle_level_def childNode_def)



section \<open>Lifecycle\<close>

text \<open>
  C7. On a host whose top overlay exists and whose main surface has a row for every
  header level, \<open>disablePlugin\<close> returns without an error from any plugin state, one
  that was never enabled included, and its outcome does not depend on the cached
  settings, the enabled flag or the registered hooks. Afterwards the settings are
  absent, the plugin is disabled, no hook is registered, and no cell that the
  traversal visits on the main, the top overlay's or the corner overlay's surface
  carries a \<^verbatim>\<open>title\<close>. A second call in succession returns without an error too and
  leaves exactly the state of the first.
\<close>

theorem disablePlugin_idempotent:
  assumes "surfaces_present (hot p)"
  shows "disablePlugin (p\<lparr>settings := st, enabled := en, hooks := hs\<rparr>) = disablePlugin p
         \<and> (\<exists>p1. disablePlugin p = Inr p1 \<and> disablePlugin p1 = Inr p1
              \<and> settings p1 = Prim JNull \<and> \<not> enabled p1 \<and> hooks p1 = []
              \<and> (\<forall>i j. i < columnHeaders (hot p) \<longrightarrow> j < length (mainTHEAD (hot p) ! i) \<longrightarrow>
                    (\<exists>c. cell_at (mainTHEAD (hot p1)) i j = Some c \<and> attrs c ''title'' = None)
                    \<and> (\<forall>c. cell_at_opt (topOverlay (hot p1)) i j = Some c \<longrightarrow>
                          attrs c ''title'' = None)
                    \<and> (\<forall>c. cell_at_opt (topLeftCornerOverlay (hot p1)) i j = Some c \<longrightarrow>
                          attrs c ''title'' = None)))"
proof -
  from assms obtain t where t: "topOverlay (hot p) = Some t"
    and len: "columnHeaders (hot p) \<le> length (mainTHEAD (hot p))"
    by (auto simp add: surfaces_present_def)
  let ?k = "columnHeaders (hot p)" and ?main = "mainTHEAD (hot p)"
  let ?h' = "(hot p)\<lparr>mainTHEAD := strip_levels ?k ?main ?main,
                topOverlay := Some (strip_levels ?k ?main t),
                topLeftCornerOverlay :=
                  map_option (strip_levels ?k ?main) (topLeftCornerOverlay (hot p))\<rparr>"
  let ?p1 = "p\<lparr>settings := Prim JNull, enabled := False, hooks := [], hot := ?h'\<rparr>"
  have h': "clearTitleAttributes (hot p) = Inr ?h'"
    by (rule clearTitleAttributes_closed [OF t len])
  have again: "clearTitleAttributes ?h' = Inr ?h'"
    by (rule clearTitleAttributes_idem [OF t len h'])
  have same: "disablePlugin (p\<lparr>settings := st, enabled := en, hooks := hs\<rparr>) = disablePlugin p"
    by (simp add: disablePlugin_def base_disablePlugin_def split: sum.splits)
  have first: "disablePlugin p = Inr ?p1"
    by (simp add: disablePlugin_def h' base_disablePlugin_def)
  have second: "disablePlugin ?p1 = Inr ?p1"
    using again by (simp add: disablePlugin_def base_disablePlugin_def)
  have state: "settings ?p1 = Prim JNull \<and> \<not> enabled ?p1 \<and> hooks ?p1 = []"
    by simp
  have cells: "(\<exists>c. cell_at (mainTHEAD (hot ?p1)) i j = Some c \<and> attrs c ''title'' = None)
        \<and> (\<forall>c. cell_at_opt (topOverlay (hot ?p1)) i j = Some c \<longrightarrow> attrs c ''title'' = None)
        \<and> (\<forall>c. cell_at_opt (topLeftCornerOverlay (hot ?p1)) i j = Some c \<longrightarrow>
              attrs c ''title'' = None)"
    if "i < ?k" and "j < length (?main ! i)" for i j
  proof -
    from that len have "i < length ?main" by simp
    with that show ?thesis
      by (cases "topLeftCornerOverlay (hot p)")
         (auto simp add: cell_at_opt_def cell_at_strip_levels cell_at_main removeAttribute_def)
  qed
  from same first second state cells show ?thesis by blast
qed

text \<open>
  A plugin that was never enabled, on the example host, disabled twice: both calls
  return, and the second main header cell has lost its title.
\<close>

theorem disablePlugin_idempotent_witness:
  "surfaces_present (hot \<lparr>settings = Prim JNull, enabled = False, hooks = [], hot = example_host\<rparr>)
   \<and> (case disablePlugin \<lparr>settings = Prim JNull, enabled = False, hooks = [], hot = example_host\<rparr> of
         Inl e \<Rightarrow> False
       | Inr p1 \<Rightarrow>
           disablePlugin p1 = Inr p1 \<and> settings p1 = Prim JNull \<and> \<not> enabled p1
           \<and> map_option (\<lambda>c. attrs c ''title'') (cell_at (mainTHEAD (hot p1)) 0 1) = Some None)"
proof -
  let ?p = "\<lparr>settings = Prim JNull, enabled = False, hooks = [], hot = example_host\<rparr>"
  have ok: "surfaces_present (hot ?p)"
    by (simp add: surfaces_present_def example_host_def)
  from disablePlugin_idempotent [where st = "Prim JNull" and en = False and hs = "[]", OF ok]
  obtain p1 where run: "disablePlugin ?p = Inr p1" and again: "disablePlugin p1 = Inr p1"
    and state: "settings p1 = Prim JNull" "\<not> enabled p1"
    and cells: "\<And>i j. i < columnHeaders (hot ?p) \<Longrightarrow> j < length (mainTHEAD (hot ?p) ! i) \<Longrightarrow>
       (\<exists>c. cell_at (mainTHEAD (hot p1)) i j = Some c \<and> attrs c ''title'' = None)"
    by blast
  have "\<exists>c. cell_at (mainTHEAD (hot p1)) 0 1 = Some c \<and> attrs c ''title'' = None"
    using cells [of 0 1] by (simp add: example_host_def)
  then have "map_option (\<lambda>c. attrs c ''title'') (cell_at (mainTHEAD (hot p1)) 0 1) = Some None"
    by auto
  with ok run again state show ?thesis
    by simp
qed

text \<open>
  A plugin that was never enabled, on a host with one header level whose main
  \<^verbatim>\<open>THEAD\<close> has no row yet: \<open>disablePlugin\<close> throws a \<^verbatim>\<open>TypeError\<close>. And on a host with
  one header level and two rows in the main \<^verbatim>\<open>THEAD\<close>, \<open>disablePlugin\<close> returns and
  the header cell of the second row keeps its title.
\<close>

theorem disablePlugin_unrendered_head_raises:
  "disablePlugin
     \<lparr>settings = Prim JNull, enabled = False, hooks = [],
      hot = \<lparr>headerTooltips = Prim (JBool False), columnHeaders = 1, mainTHEAD = [],
             topOverlay = Some [], topLeftCornerOverlay = None\<rparr>\<rparr> = Inl TypeError
   \<and> (case disablePlugin
         \<lparr>settings = Prim JNull, enabled = False, hooks = [],
          hot = \<lparr>headerTooltips = Prim (JBool False), columnHeaders = 1,
                 mainTHEAD = [[example_titled ''Year''], [example_titled ''Month'']],
                 topOverlay = Some [], topLeftCornerOverlay = None\<rparr>\<rparr> of
         Inl e \<Rightarrow> False
       | Inr p1 \<Rightarrow>
           map_option (\<lambda>c. attrs c ''title'') (cell_at (mainTHEAD (hot p1)) 1 0)
             = Some (Some ''Month''))"
proof -
  let ?h = "\<lparr>headerTooltips = Prim (JBool False), columnHeaders = 1,
             mainTHEAD = [[example_titled ''Year''], [example_titled ''Month'']],
             topOverlay = Some [], topLeftCornerOverlay = None\<rparr>"
  have t: "topOverlay ?h = Some []"
    by simp
  have l: "columnHeaders ?h \<le> length (mainTHEAD ?h)"
    by simp
  have raises: "disablePlugin
     \<lparr>settings = Prim JNull, enabled = False, hooks = [],
      hot = \<lparr>headerTooltips = Prim (JBool False), columnHeaders = 1, mainTHEAD = [],
             topOverlay = Some [], topLeftCornerOverlay = None\<rparr>\<rparr> = Inl TypeError"
    by (simp add: disablePlugin_def clearTitleAttributes_def rangeEach_def clearTitle_level_def
          childNode_def)
  let ?h' = "?h\<lparr>mainTHEAD := strip_levels (columnHeaders ?h) (mainTHEAD ?h) (mainTHEAD ?h),
                 topOverlay := Some (strip_levels (columnHeaders ?h) (mainTHEAD ?h) []),
                 topLeftCornerOverlay :=
                   map_option (strip_levels (columnHeaders ?h) (mainTHEAD ?h))
                     (topLeftCornerOverlay ?h)\<rparr>"
  have run: "clearTitleAttributes ?h = Inr ?h'"
    by (rule clearTitleAttributes_closed [OF t l])
  have returns: "disablePlugin \<lparr>settings = Prim JNull, enabled = False, hooks = [], hot = ?h\<rparr> =
           Inr \<lparr>settings = Prim JNull, enabled = False, hooks = [], hot = ?h'\<rparr>"
    by (rule disablePlugin_run [OF run])
  have cell: "map_option (\<lambda>c. attrs c ''title'') (cell_at (mainTHEAD ?h') 1 0)
                = Some (Some ''Month'')"
    by (simp add: example_titled_def example_TH_def setAttribute_def cell_at_def childNode_def)
  show ?thesis
    unfolding raises returns using cell by simp
qed

end
